theory Spec2Isabelle
  imports Main "HOL-Library.Word" "HOL-Library.Signed_Division"
begin

section \<open>Common types\<close>

text \<open>
  Go's \<open>int\<close> and \<open>int64\<close> are 64-bit two's complement integers (a 64-bit platform is
  assumed, so \<open>int(count)\<close> and \<open>int64(n)\<close> are the identity); they are \<open>64 word\<close>,
  read with \<open>sint\<close>. A \<open>time.Duration\<close> is a number of nanoseconds and a \<open>time.Time\<close>
  an instant in nanoseconds since the Unix epoch; no arithmetic of the limiter, the
  scanner or the migrator can overflow them, so both are \<open>int\<close>.
\<close>

type_synonym i64 = "64 word"
type_synonym duration = int
type_synonym time = int

text \<open>
  The errors that the code creates or passes on. \<open>StoreError\<close> is any error reported by
  the Redis client for a command, \<open>ContextError\<close> is \<open>ctx.Err()\<close> of a cancelled
  context, \<open>Wrapped msg e\<close> is \<open>fmt.Errorf("msg: %w", e)\<close> and \<open>Aborted key e\<close> is
  \<open>fmt.Errorf("migration aborted at key %s: %w", key, e)\<close>.
\<close>

datatype error =
    StoreError string
  | ContextError string
  | Wrapped string error
  | Aborted string error

text \<open>
  A call either panics (the only run-time panic in reach is an integer division by
  zero), returns an error, or returns a value.
\<close>

datatype 'a outcome = Panic | Failed error | Ok 'a


section \<open>Rate limiter\<close>

record RateLimitConfig =
  KeyPrefix :: string
  Rate :: i64
  Window :: duration
  BurstSize :: i64

record RateLimitResult =
  Allowed :: bool
  Remaining :: i64
  ResetAt :: time
  RetryAfter :: duration

text \<open>
  \<open>NewRateLimiter\<close>: the defaults for an empty prefix and a zero burst size. The
  \<open>KeyFunc\<close> field only serves the HTTP middleware and is left out. The limiter is its
  configuration; the client is the store, passed to each operation.
\<close>

definition NewRateLimiter :: "RateLimitConfig \<Rightarrow> RateLimitConfig" where
  "NewRateLimiter config =
     (let c1 = (if KeyPrefix config = [] then config\<lparr>KeyPrefix := ''ratelimit''\<rparr> else config);
          c2 = (if BurstSize c1 = 0 then c1\<lparr>BurstSize := Rate c1\<rparr> else c1)
      in c2)"

subsection \<open>Key derivation\<close>

text \<open>
  \<open>t.Unix()\<close>: whole seconds since the epoch, rounded down.
\<close>

definition Unix :: "time \<Rightarrow> int" where
  "Unix t = t div 1000000000"

text \<open>
  \<open>int64(d.Seconds())\<close>. \<open>Duration.Seconds\<close> returns the float
  \<open>float64(d / Second) + float64(d % Second) / 1e9\<close> and the conversion to \<open>int64\<close>
  truncates it towards zero. The integer below is that value whenever \<open>d\<close> is shorter
  than \<open>2^24\<close> seconds or a whole number of seconds (the float sum is then below the next
  integer); in particular for every \<open>d\<close> shorter than a second, where the float is
  \<open>d / 1e9 < 1\<close>.
\<close>

definition Seconds_int64 :: "duration \<Rightarrow> int" where
  "Seconds_int64 d = d sdiv 1000000000"

text \<open>
  \<open>fmt.Sprintf("%d", i)\<close>: the decimal digits, with a minus sign for a negative number.
\<close>

definition digit_char :: "nat \<Rightarrow> char" where
  "digit_char d = char_of (48 + d)"

fun dec_digits :: "nat \<Rightarrow> string" where
  "dec_digits n = (if n < 10 then [digit_char n] else dec_digits (n div 10) @ [digit_char (n mod 10)])"

declare dec_digits.simps [simp del]

definition fmt_d :: "int \<Rightarrow> string" where
  "fmt_d i = (if i < 0 then CHR ''-'' # dec_digits (nat (- i)) else dec_digits (nat i))"

text \<open>
  \<open>buildKey\<close>: \<open>window := t.Unix() / int64(rl.config.Window.Seconds())\<close>, then
  \<open>fmt.Sprintf("%s:%s:%d", prefix, key, window)\<close>. Go's integer division truncates
  towards zero and panics on a zero divisor.
\<close>

definition buildKey :: "RateLimitConfig \<Rightarrow> string \<Rightarrow> time \<Rightarrow> string outcome" where
  "buildKey config key t =
     (if Seconds_int64 (Window config) = 0 then Panic
      else Ok (KeyPrefix config @ '':'' @ key @ '':'' @
               fmt_d (Unix t sdiv Seconds_int64 (Window config))))"

text \<open>\<open>ClusterRateLimiter.buildKey\<close> repeats the same two lines.\<close>

definition cluster_buildKey :: "RateLimitConfig \<Rightarrow> string \<Rightarrow> time \<Rightarrow> string outcome" where
  "cluster_buildKey config key t =
     (if Seconds_int64 (Window config) = 0 then Panic
      else Ok (KeyPrefix config @ '':'' @ key @ '':'' @
               fmt_d (Unix t sdiv Seconds_int64 (Window config))))"

subsection \<open>The check\<close>

text \<open>
  The commands queued on the pipeline, and the store's answer to \<open>pipe.Exec\<close>: an
  error, or the values of the \<open>IncrBy\<close> and the \<open>TTL\<close> command. The store is a
  collaborator outside the repository: it is a parameter, a function from its state
  and the queued commands to its answer and its next state.
\<close>

datatype cmd = IncrBy string i64 | Expire string duration | TTL string | Del string

type_synonym 's pipeline = "'s \<Rightarrow> cmd list \<Rightarrow> (error + (i64 \<times> duration)) \<times> 's"

text \<open>The part of \<open>AllowN\<close> after a successful round trip (lines 118 to 146).\<close>

definition decide :: "RateLimitConfig \<Rightarrow> time \<Rightarrow> i64 \<Rightarrow> duration \<Rightarrow> RateLimitResult" where
  "decide config now count ttl =
     (let remaining0 = Rate config - count;
          remaining = (if sint remaining0 < 0 then 0 else remaining0);
          resetAt = (if ttl < 0 then now + Window config else now + ttl);
          allowed = (sint count \<le> sint (Rate config));
          retryAfter = (if \<not> allowed then (if ttl < 0 then Window config else ttl) else 0)
      in \<lparr>Allowed = allowed, Remaining = remaining, ResetAt = resetAt, RetryAfter = retryAfter\<rparr>)"

definition AllowN ::
  "RateLimitConfig \<Rightarrow> 's pipeline \<Rightarrow> 's \<Rightarrow> time \<Rightarrow> string \<Rightarrow> i64 \<Rightarrow> RateLimitResult outcome \<times> 's" where
  "AllowN config exec s now key n =
     (case buildKey config key now of
        Panic \<Rightarrow> (Panic, s)
      | Failed e \<Rightarrow> (Failed e, s)
      | Ok windowKey \<Rightarrow>
          (case exec s [IncrBy windowKey n, Expire windowKey (Window config), TTL windowKey] of
             (Inl e, s') \<Rightarrow> (Failed (Wrapped ''rate limit check failed'' e), s')
           | (Inr (count, ttl), s') \<Rightarrow> (Ok (decide config now count ttl), s')))"

definition Allow ::
  "RateLimitConfig \<Rightarrow> 's pipeline \<Rightarrow> 's \<Rightarrow> time \<Rightarrow> string \<Rightarrow> RateLimitResult outcome \<times> 's" where
  "Allow config exec s now key = AllowN config exec s now key 1"

text \<open>\<open>Reset\<close>: one \<open>Del\<close> of the current window's key; the store answers with its error.\<close>

definition Reset ::
  "RateLimitConfig \<Rightarrow> ('s \<Rightarrow> cmd \<Rightarrow> error option \<times> 's) \<Rightarrow> 's \<Rightarrow> time \<Rightarrow> string \<Rightarrow> unit outcome \<times> 's" where
  "Reset config del s now key =
     (case buildKey config key now of
        Panic \<Rightarrow> (Panic, s)
      | Failed e \<Rightarrow> (Failed e, s)
      | Ok windowKey \<Rightarrow>
          (case del s (Del windowKey) of (Some e, s') \<Rightarrow> (Failed e, s') | (None, s') \<Rightarrow> (Ok (), s')))"

text \<open>
  A sequence of checks against one store: each request is the clock reading, the
  identity and the number of tokens, and the store's state is carried from one check
  to the next.
\<close>

fun AllowN_seq ::
  "RateLimitConfig \<Rightarrow> 's pipeline \<Rightarrow> 's \<Rightarrow> (time \<times> string \<times> i64) list \<Rightarrow> RateLimitResult outcome list \<times> 's" where
  "AllowN_seq config exec s [] = ([], s)"
| "AllowN_seq config exec s ((now, key, n) # reqs) =
     (case AllowN config exec s now key n of
        (r, s') \<Rightarrow> (case AllowN_seq config exec s' reqs of (rs, s'') \<Rightarrow> (r # rs, s'')))"

subsection \<open>A counter store\<close>

text \<open>
  The store as the limiter needs it: \<open>increment(key, n)\<close> adds to the integer
  stored under the key (a missing key counts as 0) and answers the new value, and refuses
  an increment that leaves the 64-bit range, as Redis does. What \<open>ttl(key)\<close> answers at
  each round trip is not computed here: the answers are listed in the store's state,
  one for each round trip to come (\<open>-1\<close>, "no expiry", when the list has run out).
\<close>

record counter_store =
  counters :: "string \<Rightarrow> int"
  ttls :: "duration list"

fun counter_exec :: "counter_store pipeline" where
  "counter_exec s (IncrBy k n # _) =
     (let v = counters s k + sint n
      in if v < - (2 ^ 63) \<or> 2 ^ 63 \<le> v
         then (Inl (StoreError ''ERR increment or decrement would overflow''), s)
         else (Inr (word_of_int v, (case ttls s of [] \<Rightarrow> - 1 | t # _ \<Rightarrow> t)),
               s\<lparr>counters := (counters s)(k := v), ttls := tl (ttls s)\<rparr>))"
| "counter_exec s _ = (Inl (StoreError ''unsupported pipeline''), s)"





section \<open>Key scanner\<close>

text \<open>
  \<open>ScanOptions\<close>. \<open>Count\<close> is an \<open>int64\<close> and \<open>BatchDelay\<close> a duration; both are
  only compared with 0 and handed to the store.
\<close>

record ScanOptions =
  Pattern :: string
  Count :: int
  BatchDelay :: int
  Type :: string

text \<open>
  The store answers a \<open>SCAN\<close> with an error or with a page of keys and the next cursor.
  The store and the context are outside the repository, so they are parameters: what
  \<open>Scan\<close> and \<open>ScanType\<close> answer to the cursor, the pattern, the count (and the type),
  and what \<open>ctx.Err()\<close> is when the context is done. Both may change while a scan runs,
  so they also depend on the number of scan calls made so far.
\<close>

type_synonym scan_reply = "error + (string list \<times> 64 word)"

record scan_env =
  Scan :: "nat \<Rightarrow> 64 word \<Rightarrow> string \<Rightarrow> int \<Rightarrow> scan_reply"
  ScanType :: "nat \<Rightarrow> 64 word \<Rightarrow> string \<Rightarrow> int \<Rightarrow> string \<Rightarrow> scan_reply"
  ctx_err :: "nat \<Rightarrow> error option"

text \<open>
  The \<open>Scanner\<close> struct without its \<open>ctx\<close> and \<open>client\<close> fields, which are the
  environment above. The field \<open>done\<close> is \<open>done_flag\<close> here, \<open>done\<close> being a keyword.
\<close>

record Scanner =
  opts :: ScanOptions
  cursor :: "64 word"
  buffer :: "string list"
  bufIdx :: nat
  done_flag :: bool
  err :: "error option"

definition Blusukan :: "ScanOptions \<Rightarrow> Scanner" where
  "Blusukan os =
     (let o1 = (if Pattern os = [] then os\<lparr>Pattern := ''*''\<rparr> else os);
          o2 = (if Count o1 = 0 then o1\<lparr>Count := 100\<rparr> else o1)
      in \<lparr>opts = o2, cursor = 0, buffer = [], bufIdx = 0, done_flag = False, err = None\<rparr>)"

text \<open>The scan call of \<open>Next\<close> (lines 529 to 534): with the type filter when one is set.\<close>

definition fetch :: "scan_env \<Rightarrow> Scanner \<Rightarrow> nat \<Rightarrow> scan_reply" where
  "fetch env s k =
     (if Type (opts s) \<noteq> []
      then ScanType env k (cursor s) (Pattern (opts s)) (Count (opts s)) (Type (opts s))
      else Scan env k (cursor s) (Pattern (opts s)) (Count (opts s)))"

text \<open>
  \<open>Next\<close>, on a scanner and the number of scan calls made so far; it returns its result,
  the scanner and the new number of calls. It calls itself after an empty page that is
  not the last, which can go on for ever: the value \<open>None\<close> stands for a call that does
  not return. The sleep of \<open>BatchDelay\<close> before a page that is not the first changes
  nothing of the state and is left out.
\<close>

partial_function (option) Next :: "scan_env \<Rightarrow> Scanner \<Rightarrow> nat \<Rightarrow> (bool \<times> Scanner \<times> nat) option" where
  "Next env s k =
     (if done_flag s \<or> err s \<noteq> None then Some (False, s, k)
      else (case ctx_err env k of
          Some e \<Rightarrow> Some (False, s\<lparr>err := Some e\<rparr>, k)
        | None \<Rightarrow>
            if bufIdx s < length (buffer s) then Some (True, s\<lparr>bufIdx := bufIdx s + 1\<rparr>, k)
            else (case fetch env s k of
                Inl e \<Rightarrow> Some (False, s\<lparr>buffer := [], bufIdx := 0, err := Some e\<rparr>, Suc k)
              | Inr (keys, cur) \<Rightarrow>
                  (let s' = s\<lparr>cursor := cur, buffer := keys, bufIdx := 0,
                               done_flag := (if cur = 0 then True else done_flag s)\<rparr>
                   in if length keys > 0 then Some (True, s'\<lparr>bufIdx := 1\<rparr>, Suc k)
                      else if \<not> done_flag s' then Next env s' (Suc k)
                      else Some (False, s', Suc k)))))"

declare Next.simps [code]

text \<open>\<open>Key\<close>: the key \<open>Next\<close> stopped on, or the empty string.\<close>

definition Key :: "Scanner \<Rightarrow> string" where
  "Key s = (if 0 < bufIdx s \<and> bufIdx s \<le> length (buffer s) then buffer s ! (bufIdx s - 1) else [])"

text \<open>\<open>All\<close>: the loop \<open>for s.Next() { keys = append(keys, s.Key()) }\<close>, then \<open>s.Err()\<close>.\<close>

partial_function (option) All_loop ::
  "scan_env \<Rightarrow> Scanner \<Rightarrow> nat \<Rightarrow> string list \<Rightarrow> (string list \<times> error option \<times> Scanner \<times> nat) option" where
  "All_loop env s k keys =
     Option.bind (Next env s k)
       (\<lambda>(more, s', k'). if more then All_loop env s' k' (keys @ [Key s']) else Some (keys, err s', s', k'))"

declare All_loop.simps [code]

definition Scanner_All :: "scan_env \<Rightarrow> Scanner \<Rightarrow> nat \<Rightarrow> (string list \<times> error option \<times> Scanner \<times> nat) option" where
  "Scanner_All env s k = All_loop env s k []"

text \<open>
  Successive calls of \<open>Next\<close> on one scanner, each in the environment of its moment
  (the store and the context may have changed in between); the results are listed.
\<close>

fun Next_calls :: "scan_env list \<Rightarrow> Scanner \<Rightarrow> nat \<Rightarrow> (bool list \<times> Scanner \<times> nat) option" where
  "Next_calls [] s k = Some ([], s, k)"
| "Next_calls (env # envs) s k =
     Option.bind (Next env s k)
       (\<lambda>(more, s', k'). map_option (\<lambda>(bs, s'', k''). (more # bs, s'', k'')) (Next_calls envs s' k'))"


section \<open>Migrator\<close>

text \<open>
  \<open>MigrateOptions\<close>. The fields \<open>Pattern\<close> and \<open>TTL\<close> are \<open>MPattern\<close> and \<open>MTTL\<close> here
  (the names are taken by the scanner's options and by the \<open>TTL\<close> command). \<open>OnProgress\<close>
  returns nothing, so the field only says whether a callback is set, and the calls it
  receives are recorded in the run's \<open>progress\<close>. \<open>OnError\<close> is the callback, if any.
\<close>

record MigrateOptions =
  MPattern :: string
  BatchSize :: int
  MTTL :: int
  PreserveTTL :: bool
  OnProgress :: bool
  OnError :: "(string \<Rightarrow> error \<Rightarrow> bool) option"
  DryRun :: bool

text \<open>
  \<open>MigrateResult\<close> without its \<open>Duration\<close>, which is wall-clock time. The three counts
  are at most the number of keys, so they are \<open>nat\<close>. An entry of \<open>Errors\<close> is a
  \<open>MigrateError\<close>: the key and its error.
\<close>

record MigrateResult =
  TotalKeys :: nat
  MigratedKeys :: nat
  FailedKeys :: nat
  Errors :: "(string \<times> error) list"

text \<open>
  The two stores and the context, as parameters: what the source answers to a \<open>SCAN\<close>
  (by the number of earlier scan calls, the cursor, the pattern and the count), to
  \<open>GET key\<close> and to \<open>TTL key\<close>; the error, if any, of \<open>SET key\<close> on the destination;
  and \<open>ctx.Err()\<close> if the context is done at the check before the batch that starts at
  a given index.
\<close>

record migrate_env =
  src_scan :: "nat \<Rightarrow> 64 word \<Rightarrow> string \<Rightarrow> int \<Rightarrow> scan_reply"
  src_get :: "string \<Rightarrow> error + string"
  src_ttl :: "string \<Rightarrow> error + int"
  dst_set :: "string \<Rightarrow> error option"
  ctx_done :: "nat \<Rightarrow> error option"

text \<open>
  What the destination holds: value and time to live (0 for no expiry) by key. A run
  carries the result under construction, the destination and the calls of \<open>OnProgress\<close>
  so far (\<open>done\<close>, \<open>total\<close>).
\<close>

type_synonym dst_store = "string \<rightharpoonup> string \<times> int"

record run =
  result :: MigrateResult
  dst :: dst_store
  progress :: "(nat \<times> nat) list"

text \<open>
  \<open>scanAllKeys\<close>: pages of 100 from cursor 0 until the store answers cursor 0 again;
  \<open>None\<close> when it never does.
\<close>

partial_function (option) scanAllKeys_loop ::
  "migrate_env \<Rightarrow> string \<Rightarrow> nat \<Rightarrow> 64 word \<Rightarrow> string list \<Rightarrow> (error + string list) option" where
  "scanAllKeys_loop env pattern k cur keys =
     (case src_scan env k cur pattern 100 of
        Inl e \<Rightarrow> Some (Inl e)
      | Inr (batch, next_cur) \<Rightarrow>
          if next_cur = 0 then Some (Inr (keys @ batch))
          else scanAllKeys_loop env pattern (Suc k) next_cur (keys @ batch))"

declare scanAllKeys_loop.simps [code]

definition scanAllKeys :: "migrate_env \<Rightarrow> string \<Rightarrow> (error + string list) option" where
  "scanAllKeys env pattern = scanAllKeys_loop env pattern 0 0 []"

text \<open>\<open>migrateKey\<close>: read the value, choose the time to live, write; the first error ends it.\<close>

definition migrateKey :: "migrate_env \<Rightarrow> MigrateOptions \<Rightarrow> string \<Rightarrow> dst_store \<Rightarrow> error option \<times> dst_store" where
  "migrateKey env mo key d =
     (case src_get env key of
        Inl e \<Rightarrow> (Some (Wrapped ''get failed'' e), d)
      | Inr data \<Rightarrow>
          (case (if PreserveTTL mo
                 then (case src_ttl env key of
                         Inl e \<Rightarrow> Inl (Wrapped ''ttl failed'' e)
                       | Inr t \<Rightarrow> Inr (if t < 0 then 0 else t))
                 else Inr (if 0 < MTTL mo then MTTL mo else 0)) of
             Inl e \<Rightarrow> (Some e, d)
           | Inr ttl \<Rightarrow>
               (case dst_set env key of
                  Some e \<Rightarrow> (Some (Wrapped ''set failed'' e), d)
                | None \<Rightarrow> (None, d(key \<mapsto> (data, ttl))))))"

text \<open>The inner loop of \<open>Migrate\<close> over the keys of one batch (lines 121 to 135).\<close>

fun migrate_batch :: "migrate_env \<Rightarrow> MigrateOptions \<Rightarrow> string list \<Rightarrow> run \<Rightarrow> error option \<times> run" where
  "migrate_batch env mo [] st = (None, st)"
| "migrate_batch env mo (key # batch) st =
     (case migrateKey env mo key (dst st) of
        (Some e, d) \<Rightarrow>
          (let st' = st\<lparr>result := (result st)\<lparr>FailedKeys := FailedKeys (result st) + 1,
                                                 Errors := Errors (result st) @ [(key, e)]\<rparr>,
                         dst := d\<rparr>
           in case OnError mo of
                Some f \<Rightarrow> if \<not> f key e then (Some (Aborted key e), st')
                          else migrate_batch env mo batch st'
              | None \<Rightarrow> migrate_batch env mo batch st')
      | (None, d) \<Rightarrow>
          migrate_batch env mo batch
            (st\<lparr>result := (result st)\<lparr>MigratedKeys := MigratedKeys (result st) + 1\<rparr>, dst := d\<rparr>))"

text \<open>The progress report after a batch (lines 138 to 140).\<close>

definition report :: "MigrateOptions \<Rightarrow> run \<Rightarrow> run" where
  "report mo st =
     (if OnProgress mo
      then st\<lparr>progress := progress st @
                 [(MigratedKeys (result st) + FailedKeys (result st), TotalKeys (result st))]\<rparr>
      else st)"

text \<open>
  The outer loop \<open>for i := 0; i < len(keys); i += opts.BatchSize\<close>, with the batch size
  \<open>B\<close>; a batch size of 0 would never advance, which is the value \<open>None\<close>.
\<close>

partial_function (option) migrate_loop ::
  "migrate_env \<Rightarrow> MigrateOptions \<Rightarrow> nat \<Rightarrow> string list \<Rightarrow> nat \<Rightarrow> run \<Rightarrow> (error option \<times> run) option" where
  "migrate_loop env mo B keys i st =
     (if i < length keys then
        (case ctx_done env i of
           Some e \<Rightarrow> Some (Some e, st)
         | None \<Rightarrow>
             (case migrate_batch env mo (take (min (i + B) (length keys) - i) (drop i keys)) st of
                (Some e, st') \<Rightarrow> Some (Some e, st')
              | (None, st') \<Rightarrow> migrate_loop env mo B keys (i + B) (report mo st')))
      else Some (None, st))"

declare migrate_loop.simps [code]

text \<open>The defaults that \<open>Migrate\<close> sets first (lines 83 to 88).\<close>

definition set_defaults :: "MigrateOptions \<Rightarrow> MigrateOptions" where
  "set_defaults mo0 =
     (let o1 = (if BatchSize mo0 \<le> 0 then mo0\<lparr>BatchSize := 100\<rparr> else mo0)
      in if MPattern o1 = [] then o1\<lparr>MPattern := ''*''\<rparr> else o1)"

text \<open>
  \<open>Migrate\<close> returns the result (\<open>None\<close> for Go's \<open>nil\<close>), the error, the destination
  and the calls that \<open>OnProgress\<close> received.
\<close>

definition Migrate ::
  "migrate_env \<Rightarrow> MigrateOptions \<Rightarrow> dst_store \<Rightarrow>
     (MigrateResult option \<times> error option \<times> dst_store \<times> (nat \<times> nat) list) option" where
  "Migrate env mo0 d0 =
     (let mo = set_defaults mo0
      in Option.bind (scanAllKeys env (MPattern mo))
           (\<lambda>scanned. case scanned of
                Inl e \<Rightarrow> Some (None, Some (Wrapped ''failed to scan keys'' e), d0, [])
              | Inr keys \<Rightarrow>
                  (let st0 = \<lparr>result = \<lparr>TotalKeys = length keys, MigratedKeys = 0, FailedKeys = 0, Errors = []\<rparr>,
                              dst = d0, progress = []\<rparr>
                   in if DryRun mo then Some (Some (result st0), None, d0, [])
                      else Option.bind (migrate_loop env mo (nat (BatchSize mo)) keys 0 st0)
                             (\<lambda>(e, st). Some (Some (result st), e, dst st, progress st)))))"

text \<open>
  For the statements about a migration: the error, if any, of copying one key (it does
  not depend on the destination's content); whether the \<open>OnError\<close> callback answers
  false for a key and its error; and the bookkeeping of the inner loop for one key.
\<close>

definition key_error :: "migrate_env \<Rightarrow> MigrateOptions \<Rightarrow> string \<Rightarrow> error option" where
  "key_error env mo key = fst (migrateKey env mo key Map.empty)"

definition declines :: "MigrateOptions \<Rightarrow> string \<Rightarrow> error \<Rightarrow> bool" where
  "declines mo key e = (case OnError mo of Some f \<Rightarrow> \<not> f key e | None \<Rightarrow> False)"

definition record_key :: "migrate_env \<Rightarrow> MigrateOptions \<Rightarrow> run \<Rightarrow> string \<Rightarrow> run" where
  "record_key env mo st key =
     (case migrateKey env mo key (dst st) of
        (Some e, d) \<Rightarrow>
          st\<lparr>result := (result st)\<lparr>FailedKeys := FailedKeys (result st) + 1,
                                      Errors := Errors (result st) @ [(key, e)]\<rparr>,
              dst := d\<rparr>
      | (None, d) \<Rightarrow>
          st\<lparr>result := (result st)\<lparr>MigratedKeys := MigratedKeys (result st) + 1\<rparr>, dst := d\<rparr>)"

section \<open>Properties of the rate limiter\<close>

subsection \<open>Window length and decimal rendering\<close>

lemma sdiv_int_unfold: "(a::int) sdiv b = sgn a * sgn b * (\<bar>a\<bar> div \<bar>b\<bar>)"
  by (simp add: signed_divide_int_def)

lemma Seconds_int64_sub_second: "0 < d \<Longrightarrow> d < 1000000000 \<Longrightarrow> Seconds_int64 d = 0"
  by (simp add: Seconds_int64_def signed_divide_int_def)

lemma Seconds_int64_pos: "1000000000 \<le> d \<Longrightarrow> 0 < Seconds_int64 d"
  by (simp add: Seconds_int64_def signed_divide_int_def pos_imp_zdiv_pos_iff)




lemma dec_digits_small: "n < 10 \<Longrightarrow> dec_digits n = [digit_char n]"
  by (simp add: dec_digits.simps [of n])

lemma dec_digits_big: "\<not> n < 10 \<Longrightarrow> dec_digits n = dec_digits (n div 10) @ [digit_char (n mod 10)]"
  by (simp add: dec_digits.simps [of n])




lemma dec_digits_nonempty: "dec_digits n \<noteq> []"
  by (cases "n < 10") (simp_all add: dec_digits_small dec_digits_big)





subsection \<open>The decision\<close>

lemma sint_diff_exact:
  fixes a b :: i64
  assumes "- (2 ^ 63) \<le> sint a - sint b" "sint a - sint b < 2 ^ 63"
  shows "sint (a - b) = sint a - sint b"
  using assms by (simp add: sint_word_diff signed_take_bit_int_eq_self)

lemma decide_Allowed: "Allowed (decide config now c ttl) = (sint c \<le> sint (Rate config))"
  by (simp add: decide_def Let_def)

lemma decide_Remaining_nonneg: "0 \<le> sint (Remaining (decide config now c ttl))"
  by (simp add: decide_def Let_def)

lemma decide_Remaining_exact:
  assumes "- (2 ^ 63) \<le> sint (Rate config) - sint c" "sint (Rate config) - sint c < 2 ^ 63"
  shows "sint (Remaining (decide config now c ttl)) = max 0 (sint (Rate config) - sint c)"
  using assms by (simp add: decide_def Let_def sint_diff_exact)

lemma nonneg_no_overflow:
  fixes a b :: i64
  assumes "0 \<le> sint a" "0 \<le> sint b"
  shows "- (2 ^ 63) \<le> sint a - sint b \<and> sint a - sint b < 2 ^ 63"
  using assms sint_lt [of a] sint_lt [of b] by simp

lemma AllowN_Ok:
  assumes "buildKey config key now = Ok wk"
    and "exec s [IncrBy wk n, Expire wk (Window config), TTL wk] = (Inr (c, ttl), s')"
  shows "AllowN config exec s now key n = (Ok (decide config now c ttl), s')"
  using assms by (simp add: AllowN_def)

text \<open>
  Claim C1. When the pipelined round trip succeeds and the counter after the increment
  is \<open>c\<close>, \<open>AllowN\<close> returns a result with \<open>Allowed = (c \<le> rate)\<close> and a
  \<open>Remaining\<close> that is never negative; \<open>Remaining\<close> is \<open>max 0 (rate - c)\<close> whenever that
  difference is a 64-bit value, which it is for every rate and counter that are not
  negative (\<open>nonneg_no_overflow\<close>). The identity and the number of tokens are arbitrary.
\<close>

theorem AllowN_decision:
  assumes "buildKey config key now = Ok wk"
    and "exec s [IncrBy wk n, Expire wk (Window config), TTL wk] = (Inr (c, ttl), s')"
  shows "\<exists>r. AllowN config exec s now key n = (Ok r, s')
     \<and> Allowed r = (sint c \<le> sint (Rate config))
     \<and> 0 \<le> sint (Remaining r)
     \<and> (- (2 ^ 63) \<le> sint (Rate config) - sint c \<and> sint (Rate config) - sint c < 2 ^ 63
          \<longrightarrow> sint (Remaining r) = max 0 (sint (Rate config) - sint c))"
proof -
  have "AllowN config exec s now key n = (Ok (decide config now c ttl), s')"
    using assms by (rule AllowN_Ok)
  then show ?thesis
    using decide_Allowed decide_Remaining_nonneg decide_Remaining_exact by blast
qed

theorem AllowN_decision_witness:
  "\<exists>r. AllowN \<lparr>KeyPrefix = ''rl'', Rate = 5, Window = 60000000000, BurstSize = 5\<rparr> counter_exec
          \<lparr>counters = (\<lambda>_. 0), ttls = [60000000000]\<rparr> 0 ''u'' 1
         = (Ok r, \<lparr>counters = (\<lambda>_. 0)(''rl:u:0'' := 1), ttls = []\<rparr>)
       \<and> Allowed r \<and> 0 \<le> sint (Remaining r) \<and> sint (Remaining r) = 4"
proof -
  have k: "buildKey \<lparr>KeyPrefix = ''rl'', Rate = 5, Window = 60000000000, BurstSize = 5\<rparr> ''u'' 0 = Ok ''rl:u:0''"
    by code_simp
  have e: "counter_exec \<lparr>counters = (\<lambda>_. 0), ttls = [60000000000]\<rparr>
        [IncrBy ''rl:u:0'' 1,
         Expire ''rl:u:0'' (Window \<lparr>KeyPrefix = ''rl'', Rate = 5, Window = 60000000000, BurstSize = 5\<rparr>),
         TTL ''rl:u:0'']
      = (Inr (1, 60000000000), \<lparr>counters = (\<lambda>_. 0)(''rl:u:0'' := 1), ttls = []\<rparr>)"
    by simp
  show ?thesis
    using AllowN_decision [where exec = counter_exec, OF k e] by simp
qed

subsection \<open>Reset time and retry delay\<close>

lemma decide_ttl_pos:
  assumes "0 < ttl"
  shows "ResetAt (decide config now c ttl) = now + ttl"
    and "\<not> Allowed (decide config now c ttl) \<Longrightarrow> RetryAfter (decide config now c ttl) = ttl"
  using assms by (simp_all add: decide_def Let_def)

lemma decide_ttl_neg:
  assumes "ttl < 0"
  shows "ResetAt (decide config now c ttl) = now + Window config"
    and "\<not> Allowed (decide config now c ttl) \<Longrightarrow> RetryAfter (decide config now c ttl) = Window config"
  using assms by (simp_all add: decide_def Let_def)

text \<open>
  Claim C7. After a successful round trip, a positive remaining time to live \<open>ttl\<close>
  gives \<open>ResetAt = now + ttl\<close> and, for a denied request, \<open>RetryAfter = ttl\<close>; a
  negative one ("no expiry") gives no error but \<open>ResetAt = now + Window\<close> and, for a
  denied request, \<open>RetryAfter = Window\<close>.
\<close>

theorem AllowN_reset_time:
  assumes "buildKey config key now = Ok wk"
    and "exec s [IncrBy wk n, Expire wk (Window config), TTL wk] = (Inr (c, ttl), s')"
  shows "\<exists>r. AllowN config exec s now key n = (Ok r, s')
     \<and> (0 < ttl \<longrightarrow> ResetAt r = now + ttl \<and> (\<not> Allowed r \<longrightarrow> RetryAfter r = ttl))
     \<and> (ttl < 0 \<longrightarrow> ResetAt r = now + Window config \<and> (\<not> Allowed r \<longrightarrow> RetryAfter r = Window config))"
proof -
  have "AllowN config exec s now key n = (Ok (decide config now c ttl), s')"
    using assms by (rule AllowN_Ok)
  then show ?thesis
    using decide_ttl_pos decide_ttl_neg by blast
qed

theorem AllowN_reset_time_witness:
  "(\<exists>r. AllowN \<lparr>KeyPrefix = ''rl'', Rate = 5, Window = 60000000000, BurstSize = 5\<rparr> counter_exec
          \<lparr>counters = (\<lambda>_. 5), ttls = [45000000000]\<rparr> 7000000000 ''u'' 1
         = (Ok r, \<lparr>counters = (\<lambda>_. 5)(''rl:u:0'' := 6), ttls = []\<rparr>)
       \<and> \<not> Allowed r \<and> ResetAt r = 52000000000 \<and> RetryAfter r = 45000000000)
   \<and> (\<exists>r. AllowN \<lparr>KeyPrefix = ''rl'', Rate = 5, Window = 60000000000, BurstSize = 5\<rparr> counter_exec
          \<lparr>counters = (\<lambda>_. 5), ttls = []\<rparr> 7000000000 ''u'' 1
         = (Ok r, \<lparr>counters = (\<lambda>_. 5)(''rl:u:0'' := 6), ttls = []\<rparr>)
       \<and> \<not> Allowed r \<and> ResetAt r = 67000000000 \<and> RetryAfter r = 60000000000)"
proof -
  have k: "buildKey \<lparr>KeyPrefix = ''rl'', Rate = 5, Window = 60000000000, BurstSize = 5\<rparr> ''u'' 7000000000 = Ok ''rl:u:0''"
    by code_simp
  have e1: "counter_exec \<lparr>counters = (\<lambda>_. 5), ttls = [45000000000]\<rparr>
        [IncrBy ''rl:u:0'' 1,
         Expire ''rl:u:0'' (Window \<lparr>KeyPrefix = ''rl'', Rate = 5, Window = 60000000000, BurstSize = 5\<rparr>),
         TTL ''rl:u:0'']
      = (Inr (6, 45000000000), \<lparr>counters = (\<lambda>_. 5)(''rl:u:0'' := 6), ttls = []\<rparr>)"
    by simp
  have e2: "counter_exec \<lparr>counters = (\<lambda>_. 5), ttls = []\<rparr>
        [IncrBy ''rl:u:0'' 1,
         Expire ''rl:u:0'' (Window \<lparr>KeyPrefix = ''rl'', Rate = 5, Window = 60000000000, BurstSize = 5\<rparr>),
         TTL ''rl:u:0'']
      = (Inr (6, - 1), \<lparr>counters = (\<lambda>_. 5)(''rl:u:0'' := 6), ttls = []\<rparr>)"
    by simp
  have a: "\<not> Allowed (decide \<lparr>KeyPrefix = ''rl'', Rate = 5, Window = 60000000000, BurstSize = 5\<rparr> now 6 ttl)" for now ttl
    by (simp add: decide_def)
  show ?thesis
    using AllowN_reset_time [where exec = counter_exec, OF k e1]
      AllowN_reset_time [where exec = counter_exec, OF k e2] a
    by (auto simp: AllowN_Ok [where exec = counter_exec, OF k e1] AllowN_Ok [where exec = counter_exec, OF k e2])
qed

subsection \<open>The counter key\<close>







subsection \<open>The burst size\<close>

lemma buildKey_BurstSize: "buildKey (config\<lparr>BurstSize := b\<rparr>) key t = buildKey config key t"
  by (simp add: buildKey_def)

lemma decide_BurstSize: "decide (config\<lparr>BurstSize := b\<rparr>) now c ttl = decide config now c ttl"
  by (simp add: decide_def Let_def)

lemma AllowN_BurstSize:
  "AllowN (config\<lparr>BurstSize := b\<rparr>) exec s now key n = AllowN config exec s now key n"
  by (simp add: AllowN_def buildKey_BurstSize decide_BurstSize split: outcome.splits prod.splits sum.splits)

lemma NewRateLimiter_BurstSize:
  "NewRateLimiter (config\<lparr>BurstSize := b\<rparr>)
     = (NewRateLimiter config)\<lparr>BurstSize := (if b = 0 then Rate config else b)\<rparr>"
  by (cases config) (simp add: NewRateLimiter_def Let_def)

lemma AllowN_seq_BurstSize:
  "AllowN_seq (config\<lparr>BurstSize := b\<rparr>) exec s reqs = AllowN_seq config exec s reqs"
  by (induction reqs arbitrary: s) (auto simp: AllowN_BurstSize)

text \<open>
  Claim C9. Two limiters built from configurations that differ only in \<open>BurstSize\<close>
  give the same results, and leave the store in the same state, for the same request
  or sequence of requests against the same store.
\<close>

theorem BurstSize_noninterference:
  "AllowN (NewRateLimiter (config\<lparr>BurstSize := b\<rparr>)) exec s now key n
     = AllowN (NewRateLimiter config) exec s now key n
   \<and> Allow (NewRateLimiter (config\<lparr>BurstSize := b\<rparr>)) exec s now key
     = Allow (NewRateLimiter config) exec s now key
   \<and> AllowN_seq (NewRateLimiter (config\<lparr>BurstSize := b\<rparr>)) exec s reqs
     = AllowN_seq (NewRateLimiter config) exec s reqs"
proof -
  show ?thesis
    by (simp only: NewRateLimiter_BurstSize Allow_def AllowN_BurstSize AllowN_seq_BurstSize)
qed

subsection \<open>Windows shorter than a second\<close>

lemma buildKey_Panic_iff: "buildKey config key t = Panic \<longleftrightarrow> Seconds_int64 (Window config) = 0"
  by (simp add: buildKey_def)

lemma cluster_buildKey_Panic_iff:
  "cluster_buildKey config key t = Panic \<longleftrightarrow> Seconds_int64 (Window config) = 0"
  by (simp add: cluster_buildKey_def)

lemma AllowN_Panic_iff: "fst (AllowN config exec s now key n) = Panic \<longleftrightarrow> buildKey config key now = Panic"
  by (auto simp: AllowN_def split: outcome.splits sum.splits prod.splits)

lemma Reset_Panic_iff: "fst (Reset config del s now key) = Panic \<longleftrightarrow> buildKey config key now = Panic"
  by (auto simp: Reset_def split: outcome.splits option.splits prod.splits)

text \<open>
  Claim C10. For a positive window shorter than a second the divisor of the key
  derivation is 0: \<open>buildKey\<close> of both limiters, \<open>AllowN\<close>, \<open>Allow\<close> and \<open>Reset\<close>
  panic, before any command reaches the store. From one second on, none of them does.
\<close>

theorem sub_second_window_panics:
  assumes "0 < Window config"
  shows "(Window config < 1000000000 \<longrightarrow>
            buildKey config key now = Panic \<and> cluster_buildKey config key now = Panic
          \<and> AllowN config exec s now key n = (Panic, s)
          \<and> Allow config exec s now key = (Panic, s)
          \<and> Reset config del s now key = (Panic, s))
       \<and> (1000000000 \<le> Window config \<longrightarrow>
            buildKey config key now \<noteq> Panic \<and> cluster_buildKey config key now \<noteq> Panic
          \<and> fst (AllowN config exec s now key n) \<noteq> Panic
          \<and> fst (Allow config exec s now key) \<noteq> Panic
          \<and> fst (Reset config del s now key) \<noteq> Panic)"
proof (intro conjI impI)
  assume w: "Window config < 1000000000"
  then have z: "Seconds_int64 (Window config) = 0"
    using assms by (simp add: Seconds_int64_sub_second)
  show "buildKey config key now = Panic" using z by (simp add: buildKey_def)
  show "cluster_buildKey config key now = Panic" using z by (simp add: cluster_buildKey_def)
  show "AllowN config exec s now key n = (Panic, s)" using z by (simp add: AllowN_def buildKey_def)
  show "Allow config exec s now key = (Panic, s)" using z by (simp add: Allow_def AllowN_def buildKey_def)
  show "Reset config del s now key = (Panic, s)" using z by (simp add: Reset_def buildKey_def)
next
  assume w: "1000000000 \<le> Window config"
  then have z: "Seconds_int64 (Window config) \<noteq> 0"
    using Seconds_int64_pos [OF w] by simp
  show "buildKey config key now \<noteq> Panic" using z by (simp add: buildKey_Panic_iff)
  show "cluster_buildKey config key now \<noteq> Panic" using z by (simp add: cluster_buildKey_Panic_iff)
  show "fst (AllowN config exec s now key n) \<noteq> Panic" using z by (simp add: AllowN_Panic_iff buildKey_Panic_iff)
  show "fst (Allow config exec s now key) \<noteq> Panic" using z by (simp add: Allow_def AllowN_Panic_iff buildKey_Panic_iff)
  show "fst (Reset config del s now key) \<noteq> Panic" using z by (simp add: Reset_Panic_iff buildKey_Panic_iff)
qed

theorem sub_second_window_panics_witness:
  "AllowN \<lparr>KeyPrefix = ''rl'', Rate = 5, Window = 500000000, BurstSize = 5\<rparr> counter_exec
      \<lparr>counters = (\<lambda>_. 0), ttls = []\<rparr> 125000000000 ''u'' 1 = (Panic, \<lparr>counters = (\<lambda>_. 0), ttls = []\<rparr>)
   \<and> fst (AllowN \<lparr>KeyPrefix = ''rl'', Rate = 5, Window = 1000000000, BurstSize = 5\<rparr> counter_exec
      \<lparr>counters = (\<lambda>_. 0), ttls = []\<rparr> 125000000000 ''u'' 1) \<noteq> Panic"
proof -
  have p: "0 < Window \<lparr>KeyPrefix = ''rl'', Rate = 5, Window = 500000000, BurstSize = 5\<rparr>" by simp
  have q: "0 < Window \<lparr>KeyPrefix = ''rl'', Rate = 5, Window = 1000000000, BurstSize = 5\<rparr>" by simp
  show ?thesis
    using sub_second_window_panics [OF p, where exec = counter_exec] sub_second_window_panics [OF q, where exec = counter_exec]
    by simp
qed

subsection \<open>A full window of checks\<close>


lemma fst_AllowN_seq_Cons:
  "fst (AllowN_seq config exec s ((now, key, n) # reqs)) =
     fst (AllowN config exec s now key n) # fst (AllowN_seq config exec (snd (AllowN config exec s now key n)) reqs)"
  by (simp split: prod.splits)

lemma length_AllowN_seq: "length (fst (AllowN_seq config exec s reqs)) = length reqs"
proof (induction reqs arbitrary: s)
  case Nil
  show ?case by simp
next
  case (Cons r reqs)
  obtain now key n where r: "r = (now, key, n)" by (cases r)
  show ?case unfolding r fst_AllowN_seq_Cons by (simp add: Cons.IH)
qed











section \<open>Properties of the scanner\<close>

subsection \<open>One step\<close>

lemma Next_latched:
  assumes "done_flag s \<or> err s \<noteq> None"
  shows "Next env s k = Some (False, s, k)"
  using assms by (subst Next.simps) simp

lemma Next_calls_latched:
  assumes "done_flag s \<or> err s \<noteq> None"
  shows "Next_calls envs s k = Some (replicate (length envs) False, s, k)"
  by (induction envs) (simp_all add: Next_latched [OF assms])

lemma Next_cancelled:
  assumes "\<not> done_flag s" "err s = None" "ctx_err env k = Some e"
  shows "Next env s k = Some (False, s\<lparr>err := Some e\<rparr>, k)"
  using assms by (subst Next.simps) simp

lemma Next_buffered:
  assumes "\<not> done_flag s" "err s = None" "ctx_err env k = None" "bufIdx s < length (buffer s)"
  shows "Next env s k = Some (True, s\<lparr>bufIdx := bufIdx s + 1\<rparr>, k)"
  using assms by (subst Next.simps) simp

lemma Next_scan_failed:
  assumes "\<not> done_flag s" "err s = None" "ctx_err env k = None" "\<not> bufIdx s < length (buffer s)"
    and "fetch env s k = Inl e"
  shows "Next env s k = Some (False, s\<lparr>buffer := [], bufIdx := 0, err := Some e\<rparr>, Suc k)"
  using assms by (subst Next.simps) simp

lemma Next_page:
  assumes "\<not> done_flag s" "err s = None" "ctx_err env k = None" "\<not> bufIdx s < length (buffer s)"
    and "fetch env s k = Inr (keys, cur)" "keys \<noteq> []"
  shows "Next env s k = Some (True, s\<lparr>cursor := cur, buffer := keys, bufIdx := 1, done_flag := (cur = 0)\<rparr>, Suc k)"
  using assms by (subst Next.simps) (simp add: Let_def)

lemma Next_empty_page:
  assumes "\<not> done_flag s" "err s = None" "ctx_err env k = None" "\<not> bufIdx s < length (buffer s)"
    and "fetch env s k = Inr ([], cur)" "cur \<noteq> 0"
  shows "Next env s k = Next env (s\<lparr>cursor := cur, buffer := [], bufIdx := 0, done_flag := False\<rparr>) (Suc k)"
  using assms by (subst Next.simps) (simp add: Let_def)

lemma Next_last_empty_page:
  assumes "\<not> done_flag s" "err s = None" "ctx_err env k = None" "\<not> bufIdx s < length (buffer s)"
    and "fetch env s k = Inr ([], 0)"
  shows "Next env s k = Some (False, s\<lparr>cursor := 0, buffer := [], bufIdx := 0, done_flag := True\<rparr>, Suc k)"
  using assms by (subst Next.simps) (simp add: Let_def)


lemma Next_False_latched:
  assumes "Next env s k = Some r"
  shows "\<not> fst r \<longrightarrow> done_flag (fst (snd r)) \<or> err (fst (snd r)) \<noteq> None"
  apply (rule Next.raw_induct
      [where P = "\<lambda>env s k r. \<not> fst r \<longrightarrow> done_flag (fst (snd r)) \<or> err (fst (snd r)) \<noteq> None",
        OF _ assms])
  subgoal premises prems for nxt env s k y
    using prems(2) prems(1)
    by (auto split: if_splits option.splits sum.splits prod.splits simp: Let_def)
  done

subsection \<open>Latching\<close>

text \<open>
  Claim C6. A scanner that holds an error or is done answers every later call of
  \<open>Next\<close> with false, makes no store call (the number of calls stays) and does not
  change, whatever the store and the context do in the meantime. A scanner is in that
  state as soon as one call of \<open>Next\<close> has returned false, be it for a failed scan, a
  cancelled context or the end of the key space.
\<close>

theorem scanner_latch_permanent:
  "(done_flag s \<or> err s \<noteq> None \<longrightarrow>
      Next env s k = Some (False, s, k)
    \<and> Next_calls envs s k = Some (replicate (length envs) False, s, k))
   \<and> (Next env0 s0 k0 = Some (False, s, k) \<longrightarrow>
      Next_calls envs s k = Some (replicate (length envs) False, s, k))"
proof (intro conjI impI)
  assume l: "done_flag s \<or> err s \<noteq> None"
  show "Next env s k = Some (False, s, k)" by (rule Next_latched [OF l])
  show "Next_calls envs s k = Some (replicate (length envs) False, s, k)"
    by (rule Next_calls_latched [OF l])
next
  assume "Next env0 s0 k0 = Some (False, s, k)"
  then have "done_flag s \<or> err s \<noteq> None"
    using Next_False_latched [of env0 s0 k0 "(False, s, k)"] by simp
  then show "Next_calls envs s k = Some (replicate (length envs) False, s, k)"
    by (rule Next_calls_latched)
qed

theorem scanner_latch_permanent_witness:
  "Next \<lparr>Scan = (\<lambda>k c p n. Inl (StoreError ''down'')), ScanType = (\<lambda>k c p n t. Inl (StoreError ''down'')),
          ctx_err = (\<lambda>k. None)\<rparr>
        (Blusukan \<lparr>Pattern = ''*'', Count = 10, BatchDelay = 0, Type = []\<rparr>) 0
     = Some (False,
         \<lparr>opts = \<lparr>Pattern = ''*'', Count = 10, BatchDelay = 0, Type = []\<rparr>, cursor = 0, buffer = [],
            bufIdx = 0, done_flag = False, err = Some (StoreError ''down'')\<rparr>, 1)
   \<and> Next_calls
        [\<lparr>Scan = (\<lambda>k c p n. Inr ([''a''], 0)), ScanType = (\<lambda>k c p n t. Inr ([''a''], 0)), ctx_err = (\<lambda>k. None)\<rparr>,
         \<lparr>Scan = (\<lambda>k c p n. Inr ([''a''], 0)), ScanType = (\<lambda>k c p n t. Inr ([''a''], 0)), ctx_err = (\<lambda>k. None)\<rparr>]
        \<lparr>opts = \<lparr>Pattern = ''*'', Count = 10, BatchDelay = 0, Type = []\<rparr>, cursor = 0, buffer = [],
           bufIdx = 0, done_flag = False, err = Some (StoreError ''down'')\<rparr> 1
     = Some ([False, False],
         \<lparr>opts = \<lparr>Pattern = ''*'', Count = 10, BatchDelay = 0, Type = []\<rparr>, cursor = 0, buffer = [],
            bufIdx = 0, done_flag = False, err = Some (StoreError ''down'')\<rparr>, 1)"
proof -
  let ?down = "\<lparr>Scan = (\<lambda>k c p n. Inl (StoreError ''down'')), ScanType = (\<lambda>k c p n t. Inl (StoreError ''down'')),
          ctx_err = (\<lambda>k. None)\<rparr>"
  let ?up = "\<lparr>Scan = (\<lambda>k c p n. Inr ([''a''], 0)), ScanType = (\<lambda>k c p n t. Inr ([''a''], 0)), ctx_err = (\<lambda>k. None)\<rparr>"
  let ?init = "Blusukan \<lparr>Pattern = ''*'', Count = 10, BatchDelay = 0, Type = []\<rparr>"
  let ?s = "\<lparr>opts = \<lparr>Pattern = ''*'', Count = 10, BatchDelay = 0, Type = []\<rparr>, cursor = 0, buffer = [],
            bufIdx = 0, done_flag = False, err = Some (StoreError ''down'')\<rparr>"
  have n: "Next ?down ?init 0 = Some (False, ?s, 1)"
    by (subst Next.simps) (simp add: Blusukan_def Let_def fetch_def)
  have r: "replicate (length [?up, ?up]) False = [False, False]" by simp
  have c: "Next_calls [?up, ?up] ?s 1 = Some ([False, False], ?s, 1)"
    using scanner_latch_permanent [of ?s ?up 1 "[?up, ?up]" ?down ?init 0, THEN conjunct2, rule_format, OF n]
    unfolding r .
  show ?thesis by (intro conjI n c)
qed

subsection \<open>Collecting all keys\<close>

text \<open>
  Over an empty key space (the first page is empty and ends the scan) \<open>All\<close> returns no
  key and no error; and an empty page that does not end the scan makes \<open>Next\<close> fetch the
  next page (\<open>Next_empty_page\<close> above).
\<close>

lemma All_empty_key_space:
  assumes "ctx_err env 0 = None" "fetch env (Blusukan os) 0 = Inr ([], 0)"
  shows "map_option (\<lambda>r. (fst r, fst (snd r))) (Scanner_All env (Blusukan os) 0) = Some ([], None)"
proof -
  have b: "\<not> done_flag (Blusukan os)" "err (Blusukan os) = None"
    "\<not> bufIdx (Blusukan os) < length (buffer (Blusukan os))"
    by (simp_all add: Blusukan_def Let_def)
  have n: "Next env (Blusukan os) 0 =
      Some (False, (Blusukan os)\<lparr>cursor := 0, buffer := [], bufIdx := 0, done_flag := True\<rparr>, Suc 0)"
    by (rule Next_last_empty_page [OF b(1,2) assms(1) b(3) assms(2)])
  show ?thesis
    unfolding Scanner_All_def by (subst All_loop.simps) (simp add: n b(2))
qed

text \<open>
  Claim C5. \<open>Next\<close> tests \<open>done\<close> before it looks at the buffer, and \<open>done\<close> is set as
  soon as the last page arrives: of the last page only the first key is ever returned.
  On a store that answers the first scan with the keys a and b and cursor 0, \<open>All\<close>
  returns a alone, where \<open>scanAllKeys\<close> over the same answers returns both.
\<close>

theorem All_loses_rest_of_last_page:
  "map_option fst
     (Scanner_All \<lparr>Scan = (\<lambda>k c p n. Inr ([''a'', ''b''], 0)), ScanType = (\<lambda>k c p n t. Inr ([], 0)), ctx_err = (\<lambda>k. None)\<rparr>
        (Blusukan \<lparr>Pattern = ''*'', Count = 100, BatchDelay = 0, Type = []\<rparr>) 0) = Some [''a'']
   \<and> scanAllKeys \<lparr>src_scan = (\<lambda>k c p n. Inr ([''a'', ''b''], 0)), src_get = (\<lambda>k. Inr []),
          src_ttl = (\<lambda>k. Inr 0), dst_set = (\<lambda>k. None), ctx_done = (\<lambda>i. None)\<rparr> ''*''
       = Some (Inr [''a'', ''b''])"
  by code_simp

end
